theory Spec2Isabelle
  imports Main
begin

section \<open>The configuration manager of the analytics plugin\<close>

text \<open>
  A shallow embedding of \<^verbatim>\<open>server/configuration.go\<close>. The plugin keeps a pointer to a
  configuration struct, replaces it on every configuration change, and derives a bot user
  id and a list of channel ids from the configuration through lookups at the host.

  Conventions of the embedding:
  \<^item> a Go \<^verbatim>\<open>string\<close> is a \<open>string\<close> (a list of bytes);
  \<^item> a Go \<^verbatim>\<open>error\<close> is its message; \<^verbatim>\<open>nil\<close> is \<open>None\<close>;
  \<^item> a \<^verbatim>\<open>*configuration\<close> is an index into the store of configuration structs
    allocated so far, and \<^verbatim>\<open>nil\<close> is \<open>None\<close>: two pointers are the same reference
    exactly when the indices are equal;
  \<^item> a \<^verbatim>\<open>panic\<close> is the \<open>Inl\<close> branch of a sum;
  \<^item> the host API is a record of lookup tables together with the log of the calls made
    so far; every call appends to the log;
  \<^item> the read/write lock is not modelled: every function below runs alone.
\<close>

subsection \<open>Library functions of the Go standard library\<close>

text \<open>
  \<^verbatim>\<open>strings.Split(s, sep)\<close> and \<^verbatim>\<open>strings.Count(s, sep)\<close>, at a separator of one byte,
  which is how every call in the source uses them (\<^verbatim>\<open>","\<close> and \<^verbatim>\<open>"/"\<close>).
  \<open>Split_from s sep cur\<close> scans \<open>s\<close> with \<open>cur\<close> the piece read since the last
  separator. Splitting the empty string gives one empty piece, as in Go.
\<close>

fun Split_from :: "string \<Rightarrow> char \<Rightarrow> string \<Rightarrow> string list" where
  "Split_from [] sep cur = [cur]"
| "Split_from (x # xs) sep cur =
     (if x = sep then cur # Split_from xs sep [] else Split_from xs sep (cur @ [x]))"

definition Split :: "string \<Rightarrow> char \<Rightarrow> string list" where
  "Split s sep = Split_from s sep []"

fun Count :: "string \<Rightarrow> char \<Rightarrow> nat" where
  "Count [] sep = 0"
| "Count (x # xs) sep = (if x = sep then Suc (Count xs sep) else Count xs sep)"

subsection \<open>The configuration struct and its validation\<close>

type_synonym error = string

record configuration =
  Username :: string
  TeamsChannels :: string
  BotUsername :: string
  BotIconURL :: string

definition zero_configuration :: configuration where
  "zero_configuration =
     \<lparr>Username = [], TeamsChannels = [], BotUsername = [], BotIconURL = []\<rparr>"

text \<open>
  \<^verbatim>\<open>reflect.ValueOf(*configuration).NumField()\<close>: the number of fields of the struct type,
  whatever the values of the fields are.
\<close>

definition NumField :: nat where
  "NumField = 4"

definition IsValid :: "configuration \<Rightarrow> error option" where
  "IsValid c =
     (if Username c = [] then Some ''Need a Username to make posts as''
      else if TeamsChannels c = [] then Some ''Need TeamsChannels to post in''
      else if Count (TeamsChannels c) (CHR '','') + 1 \<noteq> Count (TeamsChannels c) (CHR ''/'')
        then Some ''TeamsChannels must be in ofrm TeamName/ChannelName''
      else if BotUsername c = [] then Some ''Need BotUsername''
      else if BotIconURL c = [] then Some ''Need BotIconURL''
      else None)"

subsection \<open>The plugin and the store of configuration structs\<close>

type_synonym ref = nat

record Plugin =
  store :: "configuration list"
  configuration :: "ref option"
  BotUserID :: string
  ChannelsID :: "string list"

text \<open>
  \<^verbatim>\<open>new(configuration)\<close> and \<^verbatim>\<open>&configuration{}\<close>: a fresh struct with every field the
  empty string, at an address no live pointer holds.
\<close>

definition new_configuration :: "Plugin \<Rightarrow> Plugin \<times> ref" where
  "new_configuration p = (p\<lparr>store := store p @ [zero_configuration]\<rparr>, length (store p))"

text \<open>Every pointer of a Go program points into allocated memory.\<close>

definition valid_ref :: "Plugin \<Rightarrow> bool" where
  "valid_ref p = (case configuration p of None \<Rightarrow> True | Some a \<Rightarrow> a < length (store p))"

definition getConfiguration :: "Plugin \<Rightarrow> Plugin \<times> ref" where
  "getConfiguration p =
     (case configuration p of
        None \<Rightarrow> new_configuration p
      | Some a \<Rightarrow> (p, a))"

datatype panic = Panic string

definition setConfiguration :: "Plugin \<Rightarrow> ref option \<Rightarrow> panic + Plugin" where
  "setConfiguration p c =
     (if c \<noteq> None \<and> configuration p = c then
        (if NumField = 0 then Inr p
         else Inl (Panic ''setConfiguration called with the existing configuration''))
      else Inr (p\<lparr>configuration := c\<rparr>))"

subsection \<open>The host API\<close>

datatype api_call =
    CallLoadPluginConfiguration
  | CallGetUserByUsername string
  | CallGetTeamByName string
  | CallGetChannelByName string string bool

text \<open>
  The host answers a lookup with the object found or with an error. The plugin reads
  only the \<^verbatim>\<open>Id\<close> of the object and only whether there was an error, so an answer is
  \<open>Some id\<close> or \<open>None\<close>. \<open>stored\<close> is what \<^verbatim>\<open>LoadPluginConfiguration\<close> writes into the
  struct it is given, or the error it returns.
\<close>

record API =
  stored :: "error + configuration"
  users :: "string \<Rightarrow> string option"
  teams :: "string \<Rightarrow> string option"
  channels :: "string \<Rightarrow> string \<Rightarrow> bool \<Rightarrow> string option"
  calls :: "api_call list"

definition LoadPluginConfiguration :: "API \<Rightarrow> API \<times> (error + configuration)" where
  "LoadPluginConfiguration api =
     (api\<lparr>calls := calls api @ [CallLoadPluginConfiguration]\<rparr>, stored api)"

definition GetUserByUsername :: "API \<Rightarrow> string \<Rightarrow> API \<times> string option" where
  "GetUserByUsername api name =
     (api\<lparr>calls := calls api @ [CallGetUserByUsername name]\<rparr>, users api name)"

definition GetTeamByName :: "API \<Rightarrow> string \<Rightarrow> API \<times> string option" where
  "GetTeamByName api name =
     (api\<lparr>calls := calls api @ [CallGetTeamByName name]\<rparr>, teams api name)"

definition GetChannelByName :: "API \<Rightarrow> string \<Rightarrow> string \<Rightarrow> bool \<Rightarrow> API \<times> string option" where
  "GetChannelByName api teamId name includeDeleted =
     (api\<lparr>calls := calls api @ [CallGetChannelByName teamId name includeDeleted]\<rparr>,
      channels api teamId name includeDeleted)"

subsection \<open>Resolving the channels\<close>

text \<open>
  The loop of \<^verbatim>\<open>parseChannelsFromConfig\<close> over the pieces of \<^verbatim>\<open>TeamsChannels\<close>, with
  \<open>channelsID\<close> the ids appended so far. As in the source, an error is returned
  together with the ids collected before it.
\<close>

fun parseChannels_loop ::
  "API \<Rightarrow> string list \<Rightarrow> string list \<Rightarrow> API \<times> string list \<times> error option" where
  "parseChannels_loop api channelsID [] = (api, channelsID, None)"
| "parseChannels_loop api channelsID (teamsChannels # rest) =
     (let v = Split teamsChannels (CHR ''/'') in
      if length v \<noteq> 2
      then (api, channelsID, Some (''Bad formatted TeamsChannels: '' @ teamsChannels))
      else
        let teamName = v ! 0; channelName = v ! 1 in
        (case GetTeamByName api teamName of
           (api1, None) \<Rightarrow>
             (api1, channelsID,
              Some (''Unable to find team with configured team: '' @ teamName))
         | (api1, Some team) \<Rightarrow>
             (case GetChannelByName api1 team channelName False of
                (api2, None) \<Rightarrow>
                  (api2, channelsID,
                   Some (''Unable to find channel with configured channel: '' @ channelName))
              | (api2, Some channel) \<Rightarrow>
                  parseChannels_loop api2 (channelsID @ [channel]) rest)))"

definition parseChannelsFromConfig ::
  "API \<Rightarrow> configuration \<Rightarrow> API \<times> string list \<times> error option" where
  "parseChannelsFromConfig api c =
     parseChannels_loop api [] (Split (TeamsChannels c) (CHR '',''))"

subsection \<open>The configuration-change hook\<close>

definition OnConfigurationChange ::
  "API \<Rightarrow> Plugin \<Rightarrow> panic + (API \<times> Plugin \<times> error option)" where
  "OnConfigurationChange api p =
     (case new_configuration p of (p1, cfg) \<Rightarrow>
      (case LoadPluginConfiguration api of
         (api1, Inl err) \<Rightarrow>
           Inr (api1, p1, Some (''failed to load plugin configuration: '' @ err))
       | (api1, Inr loaded) \<Rightarrow>
           (let p2 = p1\<lparr>store := (store p1)[cfg := loaded]\<rparr> in
            case setConfiguration p2 (Some cfg) of
              Inl pn \<Rightarrow> Inl pn
            | Inr p3 \<Rightarrow>
                (case IsValid (store p3 ! cfg) of
                   Some err \<Rightarrow> Inr (api1, p3, Some err)
                 | None \<Rightarrow>
                     (case GetUserByUsername api1 (Username (store p3 ! cfg)) of
                        (api2, None) \<Rightarrow>
                          Inr (api2, p3,
                               Some (''Unable to find user with configured username: ''
                                     @ Username (store p3 ! cfg)))
                      | (api2, Some user) \<Rightarrow>
                          (let p4 = p3\<lparr>BotUserID := user\<rparr> in
                           case parseChannelsFromConfig api2 (store p4 ! cfg) of
                             (api3, channelsID, Some err) \<Rightarrow> Inr (api3, p4, Some err)
                           | (api3, channelsID, None) \<Rightarrow>
                               Inr (api3, p4\<lparr>ChannelsID := channelsID\<rparr>, None)))))))"

subsection \<open>Example inputs\<close>

text \<open>
  A host that knows the user \<open>analytics\<close>, the team \<open>Sales\<close> with its channel
  \<open>General\<close>, the team \<open>A\<close> with its channel \<open>B\<close> and the team \<open>C\<close> with its channel
  \<open>D\<close>; a plugin that has published nothing yet; and a plugin whose published
  configuration is the struct with four empty fields.
\<close>

definition example_configuration :: configuration where
  "example_configuration =
     \<lparr>Username = ''analytics'', TeamsChannels = ''Sales/General'',
      BotUsername = ''bot'', BotIconURL = ''icon''\<rparr>"

definition example_host :: API where
  "example_host =
     \<lparr>stored = Inr example_configuration,
      users = (\<lambda>n. if n = ''analytics'' then Some ''U1'' else None),
      teams =
        (\<lambda>n. if n = ''Sales'' then Some ''T1'' else if n = ''A'' then Some ''TA''
             else if n = ''C'' then Some ''TC'' else None),
      channels =
        (\<lambda>t n d. if t = ''T1'' \<and> n = ''General'' \<and> \<not> d then Some ''C1''
                 else if t = ''TA'' \<and> n = ''B'' \<and> \<not> d then Some ''CB''
                 else if t = ''TC'' \<and> n = ''D'' \<and> \<not> d then Some ''CD'' else None),
      calls = []\<rparr>"

text \<open>
  A host that answers the lookup of the team with the empty name and of the channel
  with the empty name.
\<close>

definition example_lenient_host :: API where
  "example_lenient_host =
     \<lparr>stored = Inr (example_configuration\<lparr>TeamsChannels := ''/General''\<rparr>),
      users = (\<lambda>n. if n = ''analytics'' then Some ''U1'' else None),
      teams = (\<lambda>n. if n = [] \<or> n = ''Sales'' then Some ''T1'' else None),
      channels =
        (\<lambda>t n d. if t = ''T1'' \<and> n = ''General'' \<and> \<not> d then Some ''C1''
                 else if t = ''T1'' \<and> n = [] \<and> \<not> d then Some ''C2'' else None),
      calls = []\<rparr>"

text \<open>A host that does not know the team \<open>Ops\<close>, nor the team \<open>Dev\<close>.\<close>

definition example_host_no_team :: API where
  "example_host_no_team =
     \<lparr>stored = Inr (example_configuration\<lparr>TeamsChannels := ''Sales/General,Ops/Alerts''\<rparr>),
      users = (\<lambda>n. if n = ''analytics'' then Some ''U1'' else None),
      teams = (\<lambda>n. if n = ''Sales'' then Some ''T1'' else None),
      channels =
        (\<lambda>t n d. if t = ''T1'' \<and> n = ''General'' \<and> \<not> d then Some ''C1'' else None),
      calls = []\<rparr>"

definition example_fresh :: Plugin where
  "example_fresh = \<lparr>store = [], configuration = None, BotUserID = [], ChannelsID = []\<rparr>"

definition example_published :: Plugin where
  "example_published =
     \<lparr>store = [zero_configuration], configuration = Some 0,
      BotUserID = ''U0'', ChannelsID = [''C0'']\<rparr>"

section \<open>Properties\<close>

subsection \<open>The example host\<close>

lemma example_host_simps:
  "calls example_host = []"
  "stored example_host = Inr example_configuration"
  "users example_host = (\<lambda>n. if n = ''analytics'' then Some ''U1'' else None)"
  "teams example_host =
     (\<lambda>n. if n = ''Sales'' then Some ''T1'' else if n = ''A'' then Some ''TA''
          else if n = ''C'' then Some ''TC'' else None)"
  "channels example_host =
     (\<lambda>t n d. if t = ''T1'' \<and> n = ''General'' \<and> \<not> d then Some ''C1''
              else if t = ''TA'' \<and> n = ''B'' \<and> \<not> d then Some ''CB''
              else if t = ''TC'' \<and> n = ''D'' \<and> \<not> d then Some ''CD'' else None)"
  by (simp_all add: example_host_def)

lemma example_host_no_team_simps:
  "calls example_host_no_team = []"
  "stored example_host_no_team =
     Inr (example_configuration\<lparr>TeamsChannels := ''Sales/General,Ops/Alerts''\<rparr>)"
  "users example_host_no_team = (\<lambda>n. if n = ''analytics'' then Some ''U1'' else None)"
  "teams example_host_no_team = (\<lambda>n. if n = ''Sales'' then Some ''T1'' else None)"
  "channels example_host_no_team =
     (\<lambda>t n d. if t = ''T1'' \<and> n = ''General'' \<and> \<not> d then Some ''C1'' else None)"
  by (simp_all add: example_host_no_team_def)

lemma example_lenient_host_simps:
  "calls example_lenient_host = []"
  "teams example_lenient_host = (\<lambda>n. if n = [] \<or> n = ''Sales'' then Some ''T1'' else None)"
  "channels example_lenient_host =
     (\<lambda>t n d. if t = ''T1'' \<and> n = ''General'' \<and> \<not> d then Some ''C1''
              else if t = ''T1'' \<and> n = [] \<and> \<not> d then Some ''C2'' else None)"
  by (simp_all add: example_lenient_host_def)

subsection \<open>Splitting and counting\<close>

lemma length_Split_from: "length (Split_from s sep cur) = Count s sep + 1"
  by (induction s arbitrary: cur) auto

lemma length_Split: "length (Split s sep) = Count s sep + 1"
  by (simp add: Split_def length_Split_from)

lemma Split_from_no_sep: "sep \<notin> set s \<Longrightarrow> Split_from s sep cur = [cur @ s]"
  by (induction s arbitrary: cur) auto

lemma Split_from_at_sep:
  "sep \<notin> set s \<Longrightarrow> Split_from (s @ sep # r) sep cur = (cur @ s) # Split_from r sep []"
  by (induction s arbitrary: cur) auto

lemma Split_no_sep: "sep \<notin> set s \<Longrightarrow> Split s sep = [s]"
  by (simp add: Split_def Split_from_no_sep)

lemma Split_one_sep:
  "sep \<notin> set s \<Longrightarrow> sep \<notin> set r \<Longrightarrow> Split (s @ sep # r) sep = [s, r]"
  by (simp add: Split_def Split_from_at_sep Split_from_no_sep)

lemma length_2_iff: "length v = 2 \<longleftrightarrow> (\<exists>a b. v = [a, b])"
  by (cases v; cases "tl v") auto

subsection \<open>One round of the loop\<close>

text \<open>
  What one round of the loop does, by the shape of the piece and the answers of the host:
  the piece is rejected before any lookup, or the team lookup fails and the channel
  lookup is not made, or the channel lookup fails, or the id is appended and the loop
  goes on.
\<close>

lemma loop_step:
  "parseChannels_loop api ids (tc # ps) =
     (case Split tc (CHR ''/'') of
        [t, ch] \<Rightarrow>
          (case teams api t of
             None \<Rightarrow>
               (api\<lparr>calls := calls api @ [CallGetTeamByName t]\<rparr>, ids,
                Some (''Unable to find team with configured team: '' @ t))
           | Some tid \<Rightarrow>
               (case channels api tid ch False of
                  None \<Rightarrow>
                    (api\<lparr>calls := calls api @
                       [CallGetTeamByName t, CallGetChannelByName tid ch False]\<rparr>, ids,
                     Some (''Unable to find channel with configured channel: '' @ ch))
                | Some cid \<Rightarrow>
                    parseChannels_loop
                      (api\<lparr>calls := calls api @
                         [CallGetTeamByName t, CallGetChannelByName tid ch False]\<rparr>)
                      (ids @ [cid]) ps))
      | _ \<Rightarrow> (api, ids, Some (''Bad formatted TeamsChannels: '' @ tc)))"
proof (cases "length (Split tc (CHR ''/'')) = 2")
  case True
  then obtain t ch where "Split tc (CHR ''/'') = [t, ch]"
    unfolding length_2_iff by blast
  then show ?thesis
    by (simp add: GetTeamByName_def GetChannelByName_def split: option.splits)
next
  case False
  then have "\<And>a b. Split tc (CHR ''/'') \<noteq> [a, b]"
    unfolding length_2_iff by blast
  with False show ?thesis
    by (simp split: list.splits)
qed

text \<open>The loop only appends to the log of calls; the tables of the host stay.\<close>

lemma loop_tables:
  "parseChannels_loop api ids ps = (api', ids', r) \<Longrightarrow>
     teams api' = teams api \<and> channels api' = channels api \<and>
     users api' = users api \<and> stored api' = stored api"
proof (induction ps arbitrary: api ids)
  case Nil
  then show ?case by simp
next
  case (Cons tc ps)
  from Cons.prems show ?case
    unfolding loop_step
    by (auto split: list.splits option.splits dest!: Cons.IH)
qed

text \<open>The loop stops at the first piece that fails and otherwise goes on to the rest.\<close>

lemma loop_append_ok:
  "parseChannels_loop api ids pre = (api1, ids1, None) \<Longrightarrow>
     parseChannels_loop api ids (pre @ rest) = parseChannels_loop api1 ids1 rest"
proof (induction pre arbitrary: api ids)
  case Nil
  then show ?case by simp
next
  case (Cons tc pre)
  from Cons.prems show ?case
    unfolding append_Cons loop_step
    by (auto split: list.splits option.splits intro: Cons.IH)
qed

lemma loop_append_fail:
  "parseChannels_loop api ids pre = (api1, ids1, Some e) \<Longrightarrow>
     parseChannels_loop api ids (pre @ rest) = (api1, ids1, Some e)"
proof (induction pre arbitrary: api ids)
  case Nil
  then show ?case by simp
next
  case (Cons tc pre)
  from Cons.prems show ?case
    unfolding append_Cons loop_step
    by (auto split: list.splits option.splits intro: Cons.IH)
qed

lemma loop_bad_fails:
  "tc \<in> set ps \<Longrightarrow> length (Split tc (CHR ''/'')) \<noteq> 2 \<Longrightarrow>
     snd (snd (parseChannels_loop api ids ps)) \<noteq> None"
proof (induction ps arbitrary: api ids)
  case Nil
  then show ?case by simp
next
  case (Cons x ps)
  show ?case
  proof (cases "x = tc")
    case True
    with Cons.prems(2) show ?thesis
      unfolding loop_step by (auto split: list.splits)
  next
    case False
    with Cons.prems have "tc \<in> set ps" by simp
    from Cons.IH [OF this Cons.prems(2)] show ?thesis
      unfolding loop_step by (auto split: list.splits option.splits)
  qed
qed

lemma loop_team_fails:
  "tc \<in> set ps \<Longrightarrow> Split tc (CHR ''/'') = [t, ch] \<Longrightarrow> teams api t = None \<Longrightarrow>
     snd (snd (parseChannels_loop api ids ps)) \<noteq> None"
proof (induction ps arbitrary: api ids)
  case Nil
  then show ?case by simp
next
  case (Cons x ps)
  show ?case
  proof (cases "x = tc")
    case True
    with Cons.prems(2,3) show ?thesis
      unfolding loop_step by simp
  next
    case False
    with Cons.prems have "tc \<in> set ps" by simp
    from Cons.IH [OF this Cons.prems(2)] Cons.prems(3) show ?thesis
      unfolding loop_step by (auto split: list.splits option.splits)
  qed
qed

text \<open>On success the ids are appended in the order of the pieces, one for each piece.\<close>

lemma loop_ok_order:
  "parseChannels_loop api ids ps = (api', ids', None) \<Longrightarrow>
     \<exists>new. ids' = ids @ new \<and>
       list_all2 (\<lambda>tc cid. \<exists>t ch tid. Split tc (CHR ''/'') = [t, ch] \<and>
          teams api t = Some tid \<and> channels api tid ch False = Some cid) ps new"
proof (induction ps arbitrary: api ids)
  case Nil
  then show ?case by simp
next
  case (Cons tc ps)
  from Cons.prems show ?case
    unfolding loop_step
    by (auto split: list.splits option.splits dest!: Cons.IH simp: list_all2_Cons1)
qed

subsection \<open>The hook, step by step\<close>

text \<open>
  From a plugin whose pointer is valid, the fresh struct is never the published one, so
  \<^verbatim>\<open>setConfiguration\<close> does not panic inside the hook. The hook then is a chain of four
  steps, each of which may return an error after the steps before it took effect.
\<close>

lemma OnConfigurationChange_unfold:
  assumes "valid_ref p"
  shows "OnConfigurationChange api p =
     (let api1 = api\<lparr>calls := calls api @ [CallLoadPluginConfiguration]\<rparr> in
      case stored api of
        Inl err \<Rightarrow>
          Inr (api1, p\<lparr>store := store p @ [zero_configuration]\<rparr>,
               Some (''failed to load plugin configuration: '' @ err))
      | Inr c \<Rightarrow>
          (let p3 = p\<lparr>store := store p @ [c], configuration := Some (length (store p))\<rparr> in
           case IsValid c of
             Some err \<Rightarrow> Inr (api1, p3, Some err)
           | None \<Rightarrow>
               (let api2 = api1\<lparr>calls := calls api1 @ [CallGetUserByUsername (Username c)]\<rparr> in
                case users api (Username c) of
                  None \<Rightarrow>
                    Inr (api2, p3,
                         Some (''Unable to find user with configured username: '' @ Username c))
                | Some user \<Rightarrow>
                    (case parseChannelsFromConfig api2 c of
                       (api3, channelsID, Some err) \<Rightarrow>
                         Inr (api3, p3\<lparr>BotUserID := user\<rparr>, Some err)
                     | (api3, channelsID, None) \<Rightarrow>
                         Inr (api3, p3\<lparr>BotUserID := user, ChannelsID := channelsID\<rparr>, None)))))"
proof -
  have fresh: "configuration p \<noteq> Some (length (store p))"
    using assms by (auto simp: valid_ref_def split: option.splits)
  show ?thesis
    using fresh
    by (simp add: OnConfigurationChange_def new_configuration_def LoadPluginConfiguration_def
        setConfiguration_def GetUserByUsername_def Let_def
        split: sum.splits option.splits prod.splits)
qed

subsection \<open>Publishing and reading the configuration\<close>

text \<open>
  C1, as the code has it. Publishing the reference that is already published panics,
  whatever the fields of the struct hold. The guard is lifted only for a struct type
  that has no fields, and \<^verbatim>\<open>configuration\<close> has four; a struct whose four fields are empty
  strings is not exempt.
\<close>

theorem setConfiguration_same_reference_panics:
  "configuration p = Some a \<Longrightarrow>
     setConfiguration p (Some a) =
       Inl (Panic ''setConfiguration called with the existing configuration'')"
  by (simp add: setConfiguration_def NumField_def)

theorem setConfiguration_same_reference_panics_witness:
  "configuration (example_fresh\<lparr>configuration := Some 7\<rparr>) = Some 7 \<and>
   setConfiguration (example_fresh\<lparr>configuration := Some 7\<rparr>) (Some 7) =
     Inl (Panic ''setConfiguration called with the existing configuration'')"
  using setConfiguration_same_reference_panics [of "example_fresh\<lparr>configuration := Some 7\<rparr>" 7]
  by simp

text \<open>
  C1, as the specification words it, fails: the published struct of \<open>example_published\<close>
  has four empty fields, and publishing its reference again panics.
\<close>

theorem setConfiguration_zero_value_counterexample:
  "configuration example_published = Some 0 \<and>
   store example_published ! 0 =
     \<lparr>Username = [], TeamsChannels = [], BotUsername = [], BotIconURL = []\<rparr> \<and>
   setConfiguration example_published (Some 0) =
     Inl (Panic ''setConfiguration called with the existing configuration'')"
  by (simp add: example_published_def zero_configuration_def setConfiguration_def NumField_def)

text \<open>
  C8. \<^verbatim>\<open>getConfiguration\<close> has no failing branch. With a published reference it returns
  that reference and changes nothing. With none it returns a reference to a new struct
  whose four fields are empty, and the structs allocated before are untouched. The
  reference returned from a plugin whose pointer is valid is valid. The stored reference,
  the bot user id and the channel ids are the same after the call.
\<close>

theorem getConfiguration_total_and_pure:
  "(\<forall>a. configuration p = Some a \<longrightarrow> getConfiguration p = (p, a)) \<and>
   (configuration p = None \<longrightarrow>
      store (fst (getConfiguration p)) ! snd (getConfiguration p) =
        \<lparr>Username = [], TeamsChannels = [], BotUsername = [], BotIconURL = []\<rparr> \<and>
      take (length (store p)) (store (fst (getConfiguration p))) = store p) \<and>
   (valid_ref p \<longrightarrow> snd (getConfiguration p) < length (store (fst (getConfiguration p)))) \<and>
   configuration (fst (getConfiguration p)) = configuration p \<and>
   BotUserID (fst (getConfiguration p)) = BotUserID p \<and>
   ChannelsID (fst (getConfiguration p)) = ChannelsID p"
  by (auto simp: getConfiguration_def new_configuration_def zero_configuration_def valid_ref_def
      split: option.splits)

theorem getConfiguration_total_and_pure_witness:
  "configuration example_published = Some 0 \<and> valid_ref example_published \<and>
   getConfiguration example_published = (example_published, 0) \<and>
   configuration example_fresh = None \<and> valid_ref example_fresh \<and>
   store (fst (getConfiguration example_fresh)) ! snd (getConfiguration example_fresh) =
     \<lparr>Username = [], TeamsChannels = [], BotUsername = [], BotIconURL = []\<rparr> \<and>
   snd (getConfiguration example_fresh) < length (store (fst (getConfiguration example_fresh)))"
  using getConfiguration_total_and_pure [of example_published]
    getConfiguration_total_and_pure [of example_fresh]
  by (simp add: example_published_def example_fresh_def valid_ref_def)

text \<open>
  C9. \<^verbatim>\<open>setConfiguration(nil)\<close> never panics, whatever is published, also when nothing
  is: it stores \<^verbatim>\<open>nil\<close> and changes nothing else. A \<^verbatim>\<open>getConfiguration\<close> after it returns
  a struct whose four fields are empty.
\<close>

theorem setConfiguration_nil:
  "setConfiguration p None = Inr (p\<lparr>configuration := None\<rparr>) \<and>
   store (fst (getConfiguration (p\<lparr>configuration := None\<rparr>))) !
       snd (getConfiguration (p\<lparr>configuration := None\<rparr>)) =
     \<lparr>Username = [], TeamsChannels = [], BotUsername = [], BotIconURL = []\<rparr>"
  by (simp add: setConfiguration_def getConfiguration_def new_configuration_def
      zero_configuration_def)

subsection \<open>Validation\<close>

text \<open>
  C6, as the specification words it, fails in its last sentence: an empty field is not
  always the one the error names. With a \<^verbatim>\<open>TeamsChannels\<close> that is not empty and holds no
  slash, and an empty \<^verbatim>\<open>BotUsername\<close>, the error is that of the format check, which comes
  earlier.
\<close>

theorem IsValid_earlier_check_counterexample:
  "BotUsername \<lparr>Username = ''u'', TeamsChannels = ''x'', BotUsername = [], BotIconURL = ''i''\<rparr> = [] \<and>
   IsValid \<lparr>Username = ''u'', TeamsChannels = ''x'', BotUsername = [], BotIconURL = ''i''\<rparr> =
     Some ''TeamsChannels must be in ofrm TeamName/ChannelName'' \<and>
   IsValid \<lparr>Username = ''u'', TeamsChannels = ''x'', BotUsername = [], BotIconURL = ''i''\<rparr> \<noteq>
     Some ''Need BotUsername''"
  by (simp add: IsValid_def)

text \<open>
  C6, as the code has it. \<^verbatim>\<open>IsValid\<close> returns the error of the first check that applies,
  in the order: empty \<^verbatim>\<open>Username\<close>, empty \<^verbatim>\<open>TeamsChannels\<close>, a number of commas plus one
  that is not the number of slashes, empty \<^verbatim>\<open>BotUsername\<close>, empty \<^verbatim>\<open>BotIconURL\<close>. It
  returns no error exactly when none applies. Each of the five errors is returned
  exactly when its check is the first to apply. So whenever one of the four fields is
  empty, validation fails, and the error is that of the first check that applies: it
  names a field that is empty, or it is the format error of a \<^verbatim>\<open>TeamsChannels\<close> whose
  counts do not agree. It names a given empty field when no earlier check applies.
\<close>

theorem IsValid_first_error:
  "(Username c = [] \<longrightarrow> IsValid c = Some ''Need a Username to make posts as'') \<and>
   (Username c \<noteq> [] \<and> TeamsChannels c = [] \<longrightarrow>
      IsValid c = Some ''Need TeamsChannels to post in'') \<and>
   (Username c \<noteq> [] \<and> TeamsChannels c \<noteq> [] \<and>
    Count (TeamsChannels c) (CHR '','') + 1 \<noteq> Count (TeamsChannels c) (CHR ''/'') \<longrightarrow>
      IsValid c = Some ''TeamsChannels must be in ofrm TeamName/ChannelName'') \<and>
   (Username c \<noteq> [] \<and> TeamsChannels c \<noteq> [] \<and>
    Count (TeamsChannels c) (CHR '','') + 1 = Count (TeamsChannels c) (CHR ''/'') \<and>
    BotUsername c = [] \<longrightarrow>
      IsValid c = Some ''Need BotUsername'') \<and>
   (Username c \<noteq> [] \<and> TeamsChannels c \<noteq> [] \<and>
    Count (TeamsChannels c) (CHR '','') + 1 = Count (TeamsChannels c) (CHR ''/'') \<and>
    BotUsername c \<noteq> [] \<and> BotIconURL c = [] \<longrightarrow>
      IsValid c = Some ''Need BotIconURL'') \<and>
   (IsValid c = None \<longleftrightarrow>
      Username c \<noteq> [] \<and> TeamsChannels c \<noteq> [] \<and>
      Count (TeamsChannels c) (CHR '','') + 1 = Count (TeamsChannels c) (CHR ''/'') \<and>
      BotUsername c \<noteq> [] \<and> BotIconURL c \<noteq> []) \<and>
   (Username c = [] \<or> TeamsChannels c = [] \<or> BotUsername c = [] \<or> BotIconURL c = [] \<longrightarrow>
      IsValid c \<noteq> None) \<and>
   (IsValid c = Some ''Need a Username to make posts as'' \<longleftrightarrow> Username c = []) \<and>
   (IsValid c = Some ''Need TeamsChannels to post in'' \<longleftrightarrow>
      Username c \<noteq> [] \<and> TeamsChannels c = []) \<and>
   (IsValid c = Some ''TeamsChannels must be in ofrm TeamName/ChannelName'' \<longleftrightarrow>
      Username c \<noteq> [] \<and> TeamsChannels c \<noteq> [] \<and>
      Count (TeamsChannels c) (CHR '','') + 1 \<noteq> Count (TeamsChannels c) (CHR ''/'')) \<and>
   (IsValid c = Some ''Need BotUsername'' \<longleftrightarrow>
      Username c \<noteq> [] \<and> TeamsChannels c \<noteq> [] \<and>
      Count (TeamsChannels c) (CHR '','') + 1 = Count (TeamsChannels c) (CHR ''/'') \<and>
      BotUsername c = []) \<and>
   (IsValid c = Some ''Need BotIconURL'' \<longleftrightarrow>
      Username c \<noteq> [] \<and> TeamsChannels c \<noteq> [] \<and>
      Count (TeamsChannels c) (CHR '','') + 1 = Count (TeamsChannels c) (CHR ''/'') \<and>
      BotUsername c \<noteq> [] \<and> BotIconURL c = []) \<and>
   (Username c = [] \<or> TeamsChannels c = [] \<or> BotUsername c = [] \<or> BotIconURL c = [] \<longrightarrow>
      IsValid c = Some ''Need a Username to make posts as'' \<and> Username c = [] \<or>
      IsValid c = Some ''Need TeamsChannels to post in'' \<and> TeamsChannels c = [] \<or>
      IsValid c = Some ''TeamsChannels must be in ofrm TeamName/ChannelName'' \<and>
        Count (TeamsChannels c) (CHR '','') + 1 \<noteq> Count (TeamsChannels c) (CHR ''/'') \<or>
      IsValid c = Some ''Need BotUsername'' \<and> BotUsername c = [] \<or>
      IsValid c = Some ''Need BotIconURL'' \<and> BotIconURL c = [])"
  by (simp add: IsValid_def)

theorem IsValid_first_error_witness:
  "IsValid (example_configuration\<lparr>Username := []\<rparr>) =
     Some ''Need a Username to make posts as'' \<and>
   IsValid (example_configuration\<lparr>TeamsChannels := []\<rparr>) =
     Some ''Need TeamsChannels to post in'' \<and>
   IsValid (example_configuration\<lparr>TeamsChannels := ''Sales''\<rparr>) =
     Some ''TeamsChannels must be in ofrm TeamName/ChannelName'' \<and>
   IsValid (example_configuration\<lparr>BotUsername := []\<rparr>) = Some ''Need BotUsername'' \<and>
   IsValid (example_configuration\<lparr>BotIconURL := []\<rparr>) = Some ''Need BotIconURL'' \<and>
   IsValid (example_configuration\<lparr>TeamsChannels := ''Sales'', BotUsername := []\<rparr>) =
     Some ''TeamsChannels must be in ofrm TeamName/ChannelName'' \<and>
   IsValid example_configuration = None"
  using IsValid_first_error [of "example_configuration\<lparr>Username := []\<rparr>"]
    IsValid_first_error [of "example_configuration\<lparr>TeamsChannels := []\<rparr>"]
    IsValid_first_error [of "example_configuration\<lparr>TeamsChannels := ''Sales''\<rparr>"]
    IsValid_first_error [of "example_configuration\<lparr>BotUsername := []\<rparr>"]
    IsValid_first_error [of "example_configuration\<lparr>BotIconURL := []\<rparr>"]
    IsValid_first_error
      [of "example_configuration\<lparr>TeamsChannels := ''Sales'', BotUsername := []\<rparr>"]
    IsValid_first_error [of example_configuration]
  by (simp add: example_configuration_def)

text \<open>
  C10. A configuration that passes validation need not parse: with \<^verbatim>\<open>TeamsChannels\<close>
  \<^verbatim>\<open>"A/B/C,D"\<close> (one comma, two slashes) \<^verbatim>\<open>IsValid\<close> returns no error, and at every host
  \<^verbatim>\<open>parseChannelsFromConfig\<close> rejects the first piece before any lookup.
\<close>

theorem IsValid_does_not_imply_parseable:
  "IsValid (example_configuration\<lparr>TeamsChannels := ''A/B/C,D''\<rparr>) = None \<and>
   (\<forall>api. parseChannelsFromConfig api (example_configuration\<lparr>TeamsChannels := ''A/B/C,D''\<rparr>) =
      (api, [], Some ''Bad formatted TeamsChannels: A/B/C''))"
  by (simp add: IsValid_def example_configuration_def parseChannelsFromConfig_def Split_def)

subsection \<open>Resolving the channels\<close>

text \<open>
  C2, as the specification words it, fails on the parts being non-empty: the parser
  checks only that a piece splits into two parts. The piece \<^verbatim>\<open>"/General"\<close> splits into an
  empty team name and \<^verbatim>\<open>"General"\<close>; the empty name is looked up at the host, and at a
  host that answers, the operation succeeds.
\<close>

theorem parseChannelsFromConfig_empty_part_counterexample:
  "Split ''/General'' (CHR ''/'') = [[], ''General''] \<and>
   parseChannelsFromConfig example_lenient_host
       (example_configuration\<lparr>TeamsChannels := ''/General''\<rparr>) =
     (example_lenient_host
        \<lparr>calls := [CallGetTeamByName [], CallGetChannelByName ''T1'' ''General'' False]\<rparr>,
      [''C1''], None)"
  by (simp add: parseChannelsFromConfig_def Split_def example_lenient_host_def
      example_configuration_def GetTeamByName_def GetChannelByName_def Let_def)

text \<open>The format properties, for any host.\<close>

lemma parse_format_core:
  "(length (Split tc (CHR ''/'')) = 2 \<longleftrightarrow> Count tc (CHR ''/'') = 1) \<and>
   (tc \<in> set (Split (TeamsChannels c) (CHR '','')) \<and> length (Split tc (CHR ''/'')) \<noteq> 2 \<longrightarrow>
      snd (snd (parseChannelsFromConfig api c)) \<noteq> None) \<and>
   (Split (TeamsChannels c) (CHR '','') = pre @ tc # post \<and>
    parseChannels_loop api [] pre = (api1, ids, None) \<and>
    length (Split tc (CHR ''/'')) \<noteq> 2 \<longrightarrow>
      parseChannelsFromConfig api c =
        (api1, ids, Some (''Bad formatted TeamsChannels: '' @ tc))) \<and>
   (TeamsChannels c = ''A/B,C/D'' \<and>
    teams api ''A'' = Some ta \<and> channels api ta ''B'' False = Some cb \<and>
    teams api ''C'' = Some tc' \<and> channels api tc' ''D'' False = Some cd \<longrightarrow>
      parseChannelsFromConfig api c =
        (api\<lparr>calls := calls api @
           [CallGetTeamByName ''A'', CallGetChannelByName ta ''B'' False,
            CallGetTeamByName ''C'', CallGetChannelByName tc' ''D'' False]\<rparr>,
         [cb, cd], None)) \<and>
   (TeamsChannels c = ''A/B,C'' \<longrightarrow> snd (snd (parseChannelsFromConfig api c)) \<noteq> None)"
proof (intro conjI impI)
  show "length (Split tc (CHR ''/'')) = 2 \<longleftrightarrow> Count tc (CHR ''/'') = 1"
    by (simp add: length_Split)
next
  assume "tc \<in> set (Split (TeamsChannels c) (CHR '','')) \<and> length (Split tc (CHR ''/'')) \<noteq> 2"
  then show "snd (snd (parseChannelsFromConfig api c)) \<noteq> None"
    unfolding parseChannelsFromConfig_def using loop_bad_fails [of tc _ api "[]"] by blast
next
  assume a: "Split (TeamsChannels c) (CHR '','') = pre @ tc # post \<and>
    parseChannels_loop api [] pre = (api1, ids, None) \<and>
    length (Split tc (CHR ''/'')) \<noteq> 2"
  then have "\<And>x y. Split tc (CHR ''/'') \<noteq> [x, y]"
    by auto
  then have "parseChannels_loop api1 ids (tc # post) =
      (api1, ids, Some (''Bad formatted TeamsChannels: '' @ tc))"
    unfolding loop_step by (simp split: list.splits)
  with a show "parseChannelsFromConfig api c =
      (api1, ids, Some (''Bad formatted TeamsChannels: '' @ tc))"
    by (simp add: parseChannelsFromConfig_def loop_append_ok)
next
  assume "TeamsChannels c = ''A/B,C/D'' \<and>
    teams api ''A'' = Some ta \<and> channels api ta ''B'' False = Some cb \<and>
    teams api ''C'' = Some tc' \<and> channels api tc' ''D'' False = Some cd"
  then show "parseChannelsFromConfig api c =
        (api\<lparr>calls := calls api @
           [CallGetTeamByName ''A'', CallGetChannelByName ta ''B'' False,
            CallGetTeamByName ''C'', CallGetChannelByName tc' ''D'' False]\<rparr>,
         [cb, cd], None)"
    by (simp add: parseChannelsFromConfig_def Split_def GetTeamByName_def GetChannelByName_def
        Let_def)
next
  assume "TeamsChannels c = ''A/B,C''"
  then have "''C'' \<in> set (Split (TeamsChannels c) (CHR '',''))"
    by (simp add: Split_def)
  moreover have "length (Split ''C'' (CHR ''/'')) \<noteq> 2"
    by (simp add: Split_def)
  ultimately show "snd (snd (parseChannelsFromConfig api c)) \<noteq> None"
    unfolding parseChannelsFromConfig_def by (rule loop_bad_fails)
qed

text \<open>One piece, whatever its two parts are: both are handed to the host as they are.\<close>

lemma parse_single_piece:
  assumes "CHR '','' \<notin> set t" and "CHR ''/'' \<notin> set t"
    and "CHR '','' \<notin> set ch" and "CHR ''/'' \<notin> set ch"
    and "TeamsChannels c = t @ CHR ''/'' # ch"
  shows "parseChannelsFromConfig api c =
     (case teams api t of
        None \<Rightarrow>
          (api\<lparr>calls := calls api @ [CallGetTeamByName t]\<rparr>, [],
           Some (''Unable to find team with configured team: '' @ t))
      | Some tid \<Rightarrow>
          (case channels api tid ch False of
             None \<Rightarrow>
               (api\<lparr>calls := calls api @
                  [CallGetTeamByName t, CallGetChannelByName tid ch False]\<rparr>, [],
                Some (''Unable to find channel with configured channel: '' @ ch))
           | Some cid \<Rightarrow>
               (api\<lparr>calls := calls api @
                  [CallGetTeamByName t, CallGetChannelByName tid ch False]\<rparr>, [cid], None)))"
proof -
  have "Split (TeamsChannels c) (CHR '','') = [t @ CHR ''/'' # ch]"
    using assms by (simp add: Split_no_sep)
  moreover have "Split (t @ CHR ''/'' # ch) (CHR ''/'') = [t, ch]"
    using assms by (simp add: Split_one_sep)
  ultimately show ?thesis
    unfolding parseChannelsFromConfig_def
    by (simp add: loop_step del: parseChannels_loop.simps(2) split: option.splits)
qed

lemma parse_piece_resolved:
  assumes "Split (TeamsChannels c) (CHR '','') = pre @ tc # post"
    and "parseChannels_loop api [] pre = (api1, ids, None)"
    and "Split tc (CHR ''/'') = [t, ch]"
    and "teams api t = Some tid" and "channels api tid ch False = Some cid"
  shows "parseChannelsFromConfig api c =
     parseChannels_loop
       (api1\<lparr>calls := calls api1 @ [CallGetTeamByName t, CallGetChannelByName tid ch False]\<rparr>)
       (ids @ [cid]) post"
proof -
  from loop_tables [OF assms(2)] assms(4,5)
  have "teams api1 t = Some tid" and "channels api1 tid ch False = Some cid"
    by simp_all
  with assms(3) have "parseChannels_loop api1 ids (tc # post) =
     parseChannels_loop
       (api1\<lparr>calls := calls api1 @ [CallGetTeamByName t, CallGetChannelByName tid ch False]\<rparr>)
       (ids @ [cid]) post"
    unfolding loop_step by simp
  with assms(1,2) show ?thesis
    by (simp add: parseChannelsFromConfig_def loop_append_ok)
qed

text \<open>
  C2, as the code has it. \<^verbatim>\<open>TeamsChannels\<close> is split at the commas and every piece at the
  slashes. A piece splits into exactly two parts exactly when it holds one slash.
  Whenever some piece does not split into exactly two parts, the operation fails; when
  the pieces before it resolved, it fails at that piece, before any lookup for it, with
  the error naming the piece. A piece that splits into two parts is never rejected by
  the parser, whatever the parts are: the first is looked up as the team name and the
  second as the channel name, and when both lookups answer, the id is appended and the
  loop goes on. In particular an empty team name and an empty channel name are handed
  to the host: the operation succeeds when the host answers, and otherwise fails with
  the error of the lookup, not with the format error. \<^verbatim>\<open>"A/B,C/D"\<close> is read as the
  pairs \<open>(A, B)\<close> and \<open>(C, D)\<close>, looked up in this order, and \<^verbatim>\<open>"A/B,C"\<close> fails at
  every host.
\<close>

theorem parseChannelsFromConfig_format:
  "(length (Split tc (CHR ''/'')) = 2 \<longleftrightarrow> Count tc (CHR ''/'') = 1) \<and>
   (tc \<in> set (Split (TeamsChannels c) (CHR '','')) \<and> length (Split tc (CHR ''/'')) \<noteq> 2 \<longrightarrow>
      snd (snd (parseChannelsFromConfig api c)) \<noteq> None) \<and>
   (Split (TeamsChannels c) (CHR '','') = pre @ tc # post \<and>
    parseChannels_loop api [] pre = (api1, ids, None) \<and>
    length (Split tc (CHR ''/'')) \<noteq> 2 \<longrightarrow>
      parseChannelsFromConfig api c =
        (api1, ids, Some (''Bad formatted TeamsChannels: '' @ tc))) \<and>
   (TeamsChannels c = ''A/B,C/D'' \<and>
    teams api ''A'' = Some ta \<and> channels api ta ''B'' False = Some cb \<and>
    teams api ''C'' = Some tc' \<and> channels api tc' ''D'' False = Some cd \<longrightarrow>
      parseChannelsFromConfig api c =
        (api\<lparr>calls := calls api @
           [CallGetTeamByName ''A'', CallGetChannelByName ta ''B'' False,
            CallGetTeamByName ''C'', CallGetChannelByName tc' ''D'' False]\<rparr>,
         [cb, cd], None)) \<and>
   (TeamsChannels c = ''A/B,C'' \<longrightarrow> snd (snd (parseChannelsFromConfig api c)) \<noteq> None) \<and>
   (Split (TeamsChannels c) (CHR '','') = pre @ tc # post \<and>
    parseChannels_loop api [] pre = (api1, ids, None) \<and>
    Split tc (CHR ''/'') = [t, ch] \<and>
    teams api t = Some tid \<and> channels api tid ch False = Some cid \<longrightarrow>
      parseChannelsFromConfig api c =
        parseChannels_loop
          (api1\<lparr>calls := calls api1 @
             [CallGetTeamByName t, CallGetChannelByName tid ch False]\<rparr>)
          (ids @ [cid]) post) \<and>
   (CHR '','' \<notin> set ch \<and> CHR ''/'' \<notin> set ch \<and> TeamsChannels c = CHR ''/'' # ch \<and>
    teams api [] = Some tid \<and> channels api tid ch False = Some cid \<longrightarrow>
      Split (TeamsChannels c) (CHR ''/'') = [[], ch] \<and>
      parseChannelsFromConfig api c =
        (api\<lparr>calls := calls api @
           [CallGetTeamByName [], CallGetChannelByName tid ch False]\<rparr>,
         [cid], None)) \<and>
   (CHR '','' \<notin> set ch \<and> CHR ''/'' \<notin> set ch \<and> TeamsChannels c = CHR ''/'' # ch \<and>
    teams api [] = None \<longrightarrow>
      parseChannelsFromConfig api c =
        (api\<lparr>calls := calls api @ [CallGetTeamByName []]\<rparr>, [],
         Some ''Unable to find team with configured team: '')) \<and>
   (CHR '','' \<notin> set t \<and> CHR ''/'' \<notin> set t \<and> TeamsChannels c = t @ ''/'' \<and>
    teams api t = Some tid \<and> channels api tid [] False = Some cid \<longrightarrow>
      Split (TeamsChannels c) (CHR ''/'') = [t, []] \<and>
      parseChannelsFromConfig api c =
        (api\<lparr>calls := calls api @
           [CallGetTeamByName t, CallGetChannelByName tid [] False]\<rparr>,
         [cid], None)) \<and>
   (CHR '','' \<notin> set t \<and> CHR ''/'' \<notin> set t \<and> TeamsChannels c = t @ ''/'' \<and>
    teams api t = Some tid \<and> channels api tid [] False = None \<longrightarrow>
      parseChannelsFromConfig api c =
        (api\<lparr>calls := calls api @
           [CallGetTeamByName t, CallGetChannelByName tid [] False]\<rparr>, [],
         Some ''Unable to find channel with configured channel: ''))"
proof -
  have resolved: "parseChannelsFromConfig api c =
        parseChannels_loop
          (api1\<lparr>calls := calls api1 @
             [CallGetTeamByName t, CallGetChannelByName tid ch False]\<rparr>)
          (ids @ [cid]) post"
    if "Split (TeamsChannels c) (CHR '','') = pre @ tc # post \<and>
      parseChannels_loop api [] pre = (api1, ids, None) \<and>
      Split tc (CHR ''/'') = [t, ch] \<and>
      teams api t = Some tid \<and> channels api tid ch False = Some cid"
    using that parse_piece_resolved [of c pre tc post api api1 ids t ch tid cid] by blast
  have no_team: "Split (TeamsChannels c) (CHR ''/'') = [[], ch] \<and>
      parseChannelsFromConfig api c =
        (api\<lparr>calls := calls api @
           [CallGetTeamByName [], CallGetChannelByName tid ch False]\<rparr>,
         [cid], None)"
    if "CHR '','' \<notin> set ch \<and> CHR ''/'' \<notin> set ch \<and> TeamsChannels c = CHR ''/'' # ch \<and>
      teams api [] = Some tid \<and> channels api tid ch False = Some cid"
    using that parse_single_piece [of "[]" ch c api] Split_one_sep [of "CHR ''/''" "[]" ch]
    by simp
  have no_team_fail: "parseChannelsFromConfig api c =
        (api\<lparr>calls := calls api @ [CallGetTeamByName []]\<rparr>, [],
         Some ''Unable to find team with configured team: '')"
    if "CHR '','' \<notin> set ch \<and> CHR ''/'' \<notin> set ch \<and> TeamsChannels c = CHR ''/'' # ch \<and>
      teams api [] = None"
    using that parse_single_piece [of "[]" ch c api] by simp
  have no_channel: "Split (TeamsChannels c) (CHR ''/'') = [t, []] \<and>
      parseChannelsFromConfig api c =
        (api\<lparr>calls := calls api @
           [CallGetTeamByName t, CallGetChannelByName tid [] False]\<rparr>,
         [cid], None)"
    if "CHR '','' \<notin> set t \<and> CHR ''/'' \<notin> set t \<and> TeamsChannels c = t @ ''/'' \<and>
      teams api t = Some tid \<and> channels api tid [] False = Some cid"
    using that parse_single_piece [of t "[]" c api] Split_one_sep [of "CHR ''/''" t "[]"]
    by simp
  have no_channel_fail: "parseChannelsFromConfig api c =
        (api\<lparr>calls := calls api @
           [CallGetTeamByName t, CallGetChannelByName tid [] False]\<rparr>, [],
         Some ''Unable to find channel with configured channel: '')"
    if "CHR '','' \<notin> set t \<and> CHR ''/'' \<notin> set t \<and> TeamsChannels c = t @ ''/'' \<and>
      teams api t = Some tid \<and> channels api tid [] False = None"
    using that parse_single_piece [of t "[]" c api] by simp
  from parse_format_core [of tc c api pre post api1 ids ta cb tc' cd]
    resolved no_team no_team_fail no_channel no_channel_fail
  show ?thesis by blast
qed

theorem parseChannelsFromConfig_format_witness:
  "parseChannelsFromConfig example_host (example_configuration\<lparr>TeamsChannels := ''A/B,C''\<rparr>) =
     (example_host\<lparr>calls := [CallGetTeamByName ''A'', CallGetChannelByName ''TA'' ''B'' False]\<rparr>,
      [''CB''], Some ''Bad formatted TeamsChannels: C'') \<and>
   parseChannelsFromConfig example_host (example_configuration\<lparr>TeamsChannels := ''A/B,C/D''\<rparr>) =
     (example_host\<lparr>calls :=
        [CallGetTeamByName ''A'', CallGetChannelByName ''TA'' ''B'' False,
         CallGetTeamByName ''C'', CallGetChannelByName ''TC'' ''D'' False]\<rparr>,
      [''CB'', ''CD''], None) \<and>
   parseChannelsFromConfig example_lenient_host
       (example_configuration\<lparr>TeamsChannels := ''/General''\<rparr>) =
     (example_lenient_host
        \<lparr>calls := [CallGetTeamByName [], CallGetChannelByName ''T1'' ''General'' False]\<rparr>,
      [''C1''], None) \<and>
   parseChannelsFromConfig example_lenient_host
       (example_configuration\<lparr>TeamsChannels := ''Sales/''\<rparr>) =
     (example_lenient_host
        \<lparr>calls := [CallGetTeamByName ''Sales'', CallGetChannelByName ''T1'' [] False]\<rparr>,
      [''C2''], None) \<and>
   parseChannelsFromConfig example_host (example_configuration\<lparr>TeamsChannels := ''/General''\<rparr>) =
     (example_host\<lparr>calls := [CallGetTeamByName []]\<rparr>, [],
      Some ''Unable to find team with configured team: '') \<and>
   parseChannelsFromConfig example_host (example_configuration\<lparr>TeamsChannels := ''Sales/''\<rparr>) =
     (example_host\<lparr>calls := [CallGetTeamByName ''Sales'', CallGetChannelByName ''T1'' [] False]\<rparr>,
      [], Some ''Unable to find channel with configured channel: '')"
proof -
  have pre: "parseChannels_loop example_host [] [''A/B''] =
      (example_host\<lparr>calls := [CallGetTeamByName ''A'', CallGetChannelByName ''TA'' ''B'' False]\<rparr>,
       [''CB''], None)"
    unfolding loop_step by (simp add: Split_def example_host_simps)
  have bad: "parseChannelsFromConfig example_host
       (example_configuration\<lparr>TeamsChannels := ''A/B,C''\<rparr>) =
     (example_host\<lparr>calls := [CallGetTeamByName ''A'', CallGetChannelByName ''TA'' ''B'' False]\<rparr>,
      [''CB''], Some ''Bad formatted TeamsChannels: C'')"
    using parseChannelsFromConfig_format
      [where tc = "''C''" and c = "example_configuration\<lparr>TeamsChannels := ''A/B,C''\<rparr>"
        and api = example_host and pre = "[''A/B'']" and post = "[]"
        and ?api1.0 = "example_host\<lparr>calls :=
          [CallGetTeamByName ''A'', CallGetChannelByName ''TA'' ''B'' False]\<rparr>"
        and ids = "[''CB'']"]
      pre
    by (simp add: Split_def)
  have two: "parseChannelsFromConfig example_host
       (example_configuration\<lparr>TeamsChannels := ''A/B,C/D''\<rparr>) =
     (example_host\<lparr>calls :=
        [CallGetTeamByName ''A'', CallGetChannelByName ''TA'' ''B'' False,
         CallGetTeamByName ''C'', CallGetChannelByName ''TC'' ''D'' False]\<rparr>,
      [''CB'', ''CD''], None)"
    using parseChannelsFromConfig_format
      [where c = "example_configuration\<lparr>TeamsChannels := ''A/B,C/D''\<rparr>"
        and api = example_host and ta = "''TA''" and cb = "''CB''" and tc' = "''TC''"
        and cd = "''CD''"]
    by (simp add: example_host_simps)
  have step: "parseChannelsFromConfig example_host
       (example_configuration\<lparr>TeamsChannels := ''A/B,C/D''\<rparr>) =
     parseChannels_loop
       (example_host\<lparr>calls :=
          [CallGetTeamByName ''A'', CallGetChannelByName ''TA'' ''B'' False,
           CallGetTeamByName ''C'', CallGetChannelByName ''TC'' ''D'' False]\<rparr>)
       [''CB'', ''CD''] []"
    using parseChannelsFromConfig_format
      [where tc = "''C/D''" and c = "example_configuration\<lparr>TeamsChannels := ''A/B,C/D''\<rparr>"
        and api = example_host and pre = "[''A/B'']" and post = "[]"
        and ?api1.0 = "example_host\<lparr>calls :=
          [CallGetTeamByName ''A'', CallGetChannelByName ''TA'' ''B'' False]\<rparr>"
        and ids = "[''CB'']" and t = "''C''" and ch = "''D''" and tid = "''TC''"
        and cid = "''CD''"]
      pre
    by (simp add: Split_def example_host_simps)
  have empty_team: "parseChannelsFromConfig example_lenient_host
       (example_configuration\<lparr>TeamsChannels := ''/General''\<rparr>) =
     (example_lenient_host
        \<lparr>calls := [CallGetTeamByName [], CallGetChannelByName ''T1'' ''General'' False]\<rparr>,
      [''C1''], None)"
    using parseChannelsFromConfig_format
      [where c = "example_configuration\<lparr>TeamsChannels := ''/General''\<rparr>"
        and api = example_lenient_host and ch = "''General''" and tid = "''T1''"
        and cid = "''C1''"]
    by (simp add: example_lenient_host_simps)
  have empty_channel: "parseChannelsFromConfig example_lenient_host
       (example_configuration\<lparr>TeamsChannels := ''Sales/''\<rparr>) =
     (example_lenient_host
        \<lparr>calls := [CallGetTeamByName ''Sales'', CallGetChannelByName ''T1'' [] False]\<rparr>,
      [''C2''], None)"
    using parseChannelsFromConfig_format
      [where c = "example_configuration\<lparr>TeamsChannels := ''Sales/''\<rparr>"
        and api = example_lenient_host and t = "''Sales''" and tid = "''T1''"
        and cid = "''C2''"]
    by (simp add: example_lenient_host_simps)
  have empty_team_fail: "parseChannelsFromConfig example_host
       (example_configuration\<lparr>TeamsChannels := ''/General''\<rparr>) =
     (example_host\<lparr>calls := [CallGetTeamByName []]\<rparr>, [],
      Some ''Unable to find team with configured team: '')"
    using parseChannelsFromConfig_format
      [where c = "example_configuration\<lparr>TeamsChannels := ''/General''\<rparr>"
        and api = example_host and ch = "''General''"]
    by (simp add: example_host_simps)
  have empty_channel_fail: "parseChannelsFromConfig example_host
       (example_configuration\<lparr>TeamsChannels := ''Sales/''\<rparr>) =
     (example_host\<lparr>calls := [CallGetTeamByName ''Sales'', CallGetChannelByName ''T1'' [] False]\<rparr>,
      [], Some ''Unable to find channel with configured channel: '')"
    using parseChannelsFromConfig_format
      [where c = "example_configuration\<lparr>TeamsChannels := ''Sales/''\<rparr>"
        and api = example_host and t = "''Sales''" and tid = "''T1''"]
    by (simp add: example_host_simps)
  from bad two step empty_team empty_channel empty_team_fail empty_channel_fail
  show ?thesis by simp
qed

text \<open>
  C7. At every host where the team \<open>Sales\<close> has the id \<open>T1\<close> and the channel
  \<open>General\<close> of \<open>T1\<close> has the id \<open>C1\<close>, resolving \<^verbatim>\<open>"Sales/General"\<close> gives the list
  \<open>[C1]\<close>. In general, when resolving succeeds, the list has one id for each piece of
  \<^verbatim>\<open>TeamsChannels\<close>, and the id at position \<open>i\<close> is the one the host gave for the team and
  channel of the piece at position \<open>i\<close>.
\<close>

theorem parseChannelsFromConfig_order:
  "(TeamsChannels c = ''Sales/General'' \<and> teams api ''Sales'' = Some ''T1'' \<and>
    channels api ''T1'' ''General'' False = Some ''C1'' \<longrightarrow>
      parseChannelsFromConfig api c =
        (api\<lparr>calls := calls api @
           [CallGetTeamByName ''Sales'', CallGetChannelByName ''T1'' ''General'' False]\<rparr>,
         [''C1''], None)) \<and>
   (parseChannelsFromConfig api c = (api', ids, None) \<longrightarrow>
      length ids = length (Split (TeamsChannels c) (CHR '','')) \<and>
      (\<forall>i < length ids. \<exists>t ch tid.
         Split (Split (TeamsChannels c) (CHR '','') ! i) (CHR ''/'') = [t, ch] \<and>
         teams api t = Some tid \<and> channels api tid ch False = Some (ids ! i)))"
proof -
  have example: "parseChannelsFromConfig api c =
        (api\<lparr>calls := calls api @
           [CallGetTeamByName ''Sales'', CallGetChannelByName ''T1'' ''General'' False]\<rparr>,
         [''C1''], None)"
    if "TeamsChannels c = ''Sales/General'' \<and> teams api ''Sales'' = Some ''T1'' \<and>
      channels api ''T1'' ''General'' False = Some ''C1''"
    using that
    by (simp add: parseChannelsFromConfig_def Split_def GetTeamByName_def GetChannelByName_def
        Let_def)
  have order: "length ids = length (Split (TeamsChannels c) (CHR '','')) \<and>
      (\<forall>i < length ids. \<exists>t ch tid.
         Split (Split (TeamsChannels c) (CHR '','') ! i) (CHR ''/'') = [t, ch] \<and>
         teams api t = Some tid \<and> channels api tid ch False = Some (ids ! i))"
    if ok: "parseChannelsFromConfig api c = (api', ids, None)"
  proof -
    from loop_ok_order [OF ok [unfolded parseChannelsFromConfig_def]]
    have "list_all2 (\<lambda>tc cid. \<exists>t ch tid. Split tc (CHR ''/'') = [t, ch] \<and>
            teams api t = Some tid \<and> channels api tid ch False = Some cid)
         (Split (TeamsChannels c) (CHR '','')) ids"
      by simp
    then show ?thesis
      by (simp add: list_all2_conv_all_nth)
  qed
  from example order show ?thesis by blast
qed

theorem parseChannelsFromConfig_order_witness:
  "parseChannelsFromConfig example_host example_configuration =
     (example_host\<lparr>calls :=
        [CallGetTeamByName ''Sales'', CallGetChannelByName ''T1'' ''General'' False]\<rparr>,
      [''C1''], None) \<and>
   parseChannelsFromConfig example_host (example_configuration\<lparr>TeamsChannels := ''C/D,A/B''\<rparr>) =
     (example_host\<lparr>calls :=
        [CallGetTeamByName ''C'', CallGetChannelByName ''TC'' ''D'' False,
         CallGetTeamByName ''A'', CallGetChannelByName ''TA'' ''B'' False]\<rparr>,
      [''CD'', ''CB''], None) \<and>
   (\<exists>t ch tid.
      Split (Split ''C/D,A/B'' (CHR '','') ! 1) (CHR ''/'') = [t, ch] \<and>
      teams example_host t = Some tid \<and>
      channels example_host tid ch False = Some ([''CD'', ''CB''] ! 1))"
proof -
  have one: "parseChannelsFromConfig example_host example_configuration =
     (example_host\<lparr>calls :=
        [CallGetTeamByName ''Sales'', CallGetChannelByName ''T1'' ''General'' False]\<rparr>,
      [''C1''], None)"
    using parseChannelsFromConfig_order [of example_configuration example_host]
    by (simp add: example_configuration_def example_host_simps)
  have two: "parseChannelsFromConfig example_host
       (example_configuration\<lparr>TeamsChannels := ''C/D,A/B''\<rparr>) =
     (example_host\<lparr>calls :=
        [CallGetTeamByName ''C'', CallGetChannelByName ''TC'' ''D'' False,
         CallGetTeamByName ''A'', CallGetChannelByName ''TA'' ''B'' False]\<rparr>,
      [''CD'', ''CB''], None)"
    by (simp add: parseChannelsFromConfig_def Split_def GetTeamByName_def GetChannelByName_def
        Let_def example_host_simps)
  from parseChannelsFromConfig_order
    [of "example_configuration\<lparr>TeamsChannels := ''C/D,A/B''\<rparr>" example_host
      "example_host\<lparr>calls :=
        [CallGetTeamByName ''C'', CallGetChannelByName ''TC'' ''D'' False,
         CallGetTeamByName ''A'', CallGetChannelByName ''TA'' ''B'' False]\<rparr>"
      "[''CD'', ''CB'']"]
    two
  have all: "\<forall>i < length [''CD'', ''CB'']. \<exists>t ch tid.
      Split (Split (TeamsChannels (example_configuration\<lparr>TeamsChannels := ''C/D,A/B''\<rparr>))
        (CHR '','') ! i) (CHR ''/'') = [t, ch] \<and>
      teams example_host t = Some tid \<and>
      channels example_host tid ch False = Some ([''CD'', ''CB''] ! i)"
    by blast
  from all [rule_format, of 1] have "\<exists>t ch tid.
      Split (Split ''C/D,A/B'' (CHR '','') ! 1) (CHR ''/'') = [t, ch] \<and>
      teams example_host t = Some tid \<and>
      channels example_host tid ch False = Some ([''CD'', ''CB''] ! 1)"
    by simp
  with one two show ?thesis by blast
qed

text \<open>
  C5. Let some piece of \<^verbatim>\<open>TeamsChannels\<close> name a team the host does not know. If the
  pieces before it resolved, the loop looks the team up, makes no further call, and
  returns the error naming the team. If a piece before it failed, the loop stopped
  there and made no call for this piece at all. Either way the channel lookup is not
  made for this piece and resolution fails. The hook then returns the error without
  assigning the channel ids, so the ids of the earlier pieces, which the function returns
  next to the error, are dropped.
\<close>

theorem parseChannelsFromConfig_unresolvable_team:
  assumes "Split (TeamsChannels c) (CHR '','') = pre @ tc # post"
    and "Split tc (CHR ''/'') = [t, ch]"
    and "teams api t = None"
  shows "(\<forall>api1 ids. parseChannels_loop api [] pre = (api1, ids, None) \<longrightarrow>
            parseChannelsFromConfig api c =
              (api1\<lparr>calls := calls api1 @ [CallGetTeamByName t]\<rparr>, ids,
               Some (''Unable to find team with configured team: '' @ t))) \<and>
         (\<forall>api1 ids e. parseChannels_loop api [] pre = (api1, ids, Some e) \<longrightarrow>
            parseChannelsFromConfig api c = (api1, ids, Some e)) \<and>
         snd (snd (parseChannelsFromConfig api c)) \<noteq> None \<and>
         (valid_ref p \<and> stored api = Inr c \<longrightarrow>
            (\<exists>api' p' e. OnConfigurationChange api p = Inr (api', p', Some e) \<and>
               ChannelsID p' = ChannelsID p))"
proof -
  have reached: "parseChannelsFromConfig api c =
      (api1\<lparr>calls := calls api1 @ [CallGetTeamByName t]\<rparr>, ids,
       Some (''Unable to find team with configured team: '' @ t))"
    if pre: "parseChannels_loop api [] pre = (api1, ids, None)" for api1 ids
  proof -
    from loop_tables [OF pre] assms(3) have "teams api1 t = None" by simp
    with assms(2) have "parseChannels_loop api1 ids (tc # post) =
        (api1\<lparr>calls := calls api1 @ [CallGetTeamByName t]\<rparr>, ids,
         Some (''Unable to find team with configured team: '' @ t))"
      unfolding loop_step by simp
    with pre assms(1) show ?thesis
      by (simp add: parseChannelsFromConfig_def loop_append_ok)
  qed
  have earlier: "parseChannelsFromConfig api c = (api1, ids, Some e)"
    if "parseChannels_loop api [] pre = (api1, ids, Some e)" for api1 ids e
    using that assms(1) by (simp add: parseChannelsFromConfig_def loop_append_fail)
  have fails: "snd (snd (parseChannelsFromConfig api' c)) \<noteq> None" if "teams api' = teams api" for api'
  proof -
    have "tc \<in> set (Split (TeamsChannels c) (CHR '',''))"
      using assms(1) by simp
    moreover note assms(2)
    moreover have "teams api' t = None"
      using that assms(3) by simp
    ultimately show ?thesis
      unfolding parseChannelsFromConfig_def by (rule loop_team_fails)
  qed
  have hook: "\<exists>api' p' e. OnConfigurationChange api p = Inr (api', p', Some e) \<and>
      ChannelsID p' = ChannelsID p"
    if v: "valid_ref p" and st: "stored api = Inr c"
  proof -
    have "snd (snd (parseChannelsFromConfig
        (api\<lparr>calls := calls api @
           [CallLoadPluginConfiguration, CallGetUserByUsername (Username c)]\<rparr>) c)) \<noteq> None"
      by (rule fails) simp
    then show ?thesis
      unfolding OnConfigurationChange_unfold [OF v] using st
      by (auto simp: Let_def split: option.splits prod.splits)
  qed
  from reached earlier fails [of api] hook show ?thesis by blast
qed

theorem parseChannelsFromConfig_unresolvable_team_witness:
  "parseChannelsFromConfig example_host_no_team
       (example_configuration\<lparr>TeamsChannels := ''Sales/General,Ops/Alerts''\<rparr>) =
     (example_host_no_team
        \<lparr>calls := [CallGetTeamByName ''Sales'', CallGetChannelByName ''T1'' ''General'' False,
           CallGetTeamByName ''Ops'']\<rparr>,
      [''C1''], Some ''Unable to find team with configured team: Ops'') \<and>
   parseChannelsFromConfig example_host_no_team
       (example_configuration\<lparr>TeamsChannels := ''Dev/Null,Ops/Alerts''\<rparr>) =
     (example_host_no_team\<lparr>calls := [CallGetTeamByName ''Dev'']\<rparr>,
      [], Some ''Unable to find team with configured team: Dev'') \<and>
   (\<exists>api' p' e. OnConfigurationChange example_host_no_team example_published =
        Inr (api', p', Some e) \<and> ChannelsID p' = [''C0''])"
proof -
  have v: "valid_ref example_published"
    by (simp add: valid_ref_def example_published_def)
  have s1: "Split (TeamsChannels (example_configuration\<lparr>TeamsChannels := ''Sales/General,Ops/Alerts''\<rparr>))
      (CHR '','') = [''Sales/General''] @ ''Ops/Alerts'' # []"
    by (simp add: Split_def)
  have s2: "Split (TeamsChannels (example_configuration\<lparr>TeamsChannels := ''Dev/Null,Ops/Alerts''\<rparr>))
      (CHR '','') = [''Dev/Null''] @ ''Ops/Alerts'' # []"
    by (simp add: Split_def)
  have t: "Split ''Ops/Alerts'' (CHR ''/'') = [''Ops'', ''Alerts'']"
    by (simp add: Split_def)
  have n: "teams example_host_no_team ''Ops'' = None"
    by (simp add: example_host_no_team_simps)
  have pre1: "parseChannels_loop example_host_no_team [] [''Sales/General''] =
      (example_host_no_team
         \<lparr>calls := [CallGetTeamByName ''Sales'', CallGetChannelByName ''T1'' ''General'' False]\<rparr>,
       [''C1''], None)"
    unfolding loop_step by (simp add: Split_def example_host_no_team_simps)
  have pre2: "parseChannels_loop example_host_no_team [] [''Dev/Null''] =
      (example_host_no_team\<lparr>calls := [CallGetTeamByName ''Dev'']\<rparr>, [],
       Some ''Unable to find team with configured team: Dev'')"
    unfolding loop_step by (simp add: Split_def example_host_no_team_simps)
  show ?thesis
    using parseChannelsFromConfig_unresolvable_team [OF s1 t n, of example_published]
      parseChannelsFromConfig_unresolvable_team [OF s2 t n, of example_published]
      v pre1 pre2
    by (simp add: example_host_no_team_simps example_published_def)
qed

subsection \<open>The configuration-change hook\<close>

text \<open>
  C4. When loading succeeds and the loaded configuration is invalid, the hook returns
  the validation error after having published the loaded struct: \<^verbatim>\<open>getConfiguration\<close>
  then returns a reference to the loaded struct, which is not the reference published
  before. The bot user id and the channel ids are as before.
\<close>

theorem OnConfigurationChange_invalid_stays_published:
  assumes "valid_ref p" and "stored api = Inr c" and "IsValid c = Some e"
  shows "\<exists>p'. OnConfigurationChange api p =
           Inr (api\<lparr>calls := calls api @ [CallLoadPluginConfiguration]\<rparr>, p', Some e) \<and>
         store (fst (getConfiguration p')) ! snd (getConfiguration p') = c \<and>
         Some (snd (getConfiguration p')) \<noteq> configuration p \<and>
         fst (getConfiguration p') = p' \<and>
         BotUserID p' = BotUserID p \<and> ChannelsID p' = ChannelsID p"
  using assms
  unfolding OnConfigurationChange_unfold [OF assms(1)]
  by (auto simp: Let_def getConfiguration_def valid_ref_def split: option.splits)

theorem OnConfigurationChange_invalid_stays_published_witness:
  "valid_ref example_published \<and>
   stored (example_host\<lparr>stored := Inr (example_configuration\<lparr>BotIconURL := []\<rparr>)\<rparr>) =
     Inr (example_configuration\<lparr>BotIconURL := []\<rparr>) \<and>
   IsValid (example_configuration\<lparr>BotIconURL := []\<rparr>) = Some ''Need BotIconURL'' \<and>
   (\<exists>p'. OnConfigurationChange
           (example_host\<lparr>stored := Inr (example_configuration\<lparr>BotIconURL := []\<rparr>)\<rparr>)
           example_published =
         Inr (example_host\<lparr>stored := Inr (example_configuration\<lparr>BotIconURL := []\<rparr>),
                calls := [CallLoadPluginConfiguration]\<rparr>, p', Some ''Need BotIconURL'') \<and>
      store (fst (getConfiguration p')) ! snd (getConfiguration p') =
        example_configuration\<lparr>BotIconURL := []\<rparr> \<and>
      Some (snd (getConfiguration p')) \<noteq> configuration example_published)"
proof -
  have v: "valid_ref example_published"
    by (simp add: valid_ref_def example_published_def)
  have s: "stored (example_host\<lparr>stored := Inr (example_configuration\<lparr>BotIconURL := []\<rparr>)\<rparr>) =
     Inr (example_configuration\<lparr>BotIconURL := []\<rparr>)"
    by simp
  have i: "IsValid (example_configuration\<lparr>BotIconURL := []\<rparr>) = Some ''Need BotIconURL''"
    by (simp add: IsValid_def example_configuration_def)
  show ?thesis
    using v s i OnConfigurationChange_invalid_stays_published [OF v s i]
    by (auto simp: example_host_simps)
qed




end
